theory Spec2Isabelle
  imports Complex_Main "HOL-Library.Word" "HOL-Library.Multiset"
begin

section \<open>CommissionGuard: the ticket tracker's state controller\<close>

text \<open>
  The repository holds three near-identical variants of one React component \<open>App\<close>:
  \<^item> \<open>src/App.jsx\<close> (the Vercel build): client-side sort, \<open>window.confirm\<close> before a delete;
  \<^item> the first component of \<open>unnamed/part_002\<close> (the Canvas build): client-side sort, a
    confirmation modal held in component state, \<open>db\<close> held in component state;
  \<^item> the second component of \<open>unnamed/part_002\<close> (the Netlify build): the query carries
    \<open>orderBy('createdAt', 'desc')\<close> and the snapshot is stored as received.
  Each handler is embedded as a function from the component state (and the answer of the
  remote service) to the new component state. Handlers that are the same text in several
  variants are embedded once; handlers that differ carry the variant in their name.
\<close>

subsection \<open>JavaScript strings\<close>

text \<open>A JavaScript string is a sequence of 16-bit code units.\<close>

type_synonym jsstring = "16 word list"

definition js :: "string \<Rightarrow> jsstring" where
  "js s = map (\<lambda>c. of_nat (of_char c)) s"

text \<open>
  \<open>String.prototype.trim\<close> removes leading and trailing WhiteSpace and LineTerminator
  code points (ECMA-262): TAB, VT, FF, SP, NBSP, ZWNBSP, the other space separators,
  LF, CR, LS and PS.
\<close>

definition isWhiteSpace :: "16 word \<Rightarrow> bool" where
  "isWhiteSpace c =
     (c = 0x0009 \<or> c = 0x000A \<or> c = 0x000B \<or> c = 0x000C \<or> c = 0x000D \<or> c = 0x0020
      \<or> c = 0x00A0 \<or> c = 0x1680 \<or> (0x2000 \<le> c \<and> c \<le> 0x200A) \<or> c = 0x2028
      \<or> c = 0x2029 \<or> c = 0x202F \<or> c = 0x205F \<or> c = 0x3000 \<or> c = 0xFEFF)"

definition trim :: "jsstring \<Rightarrow> jsstring" where
  "trim s = rev (dropWhile isWhiteSpace (rev (dropWhile isWhiteSpace s)))"

subsection \<open>Documents, sessions and the component state\<close>

text \<open>
  A Firestore \<open>Timestamp\<close>. The code reads it only through \<open>toMillis()\<close>, so it is
  represented by the number that call returns: milliseconds since the epoch, a double
  and hence a rational.
\<close>

datatype timestamp = Timestamp (toMillis: rat)

text \<open>
  A ticket as the snapshot handler builds it: \<open>{id: doc.id, ...doc.data()}\<close>. The fields
  \<open>id\<close>, \<open>title\<close> and \<open>description\<close> are prefixed, since the component state has a
  \<open>title\<close> and a \<open>description\<close> of its own. \<open>userId\<close> and \<open>createdAt\<close> may be absent
  (\<open>None\<close>): \<open>createdAt\<close> is \<open>null\<close> while the server timestamp is pending, and the
  code reads both fields with that in mind.
\<close>

record ticket =
  ticketId :: jsstring
  ticketTitle :: jsstring
  ticketDescription :: jsstring
  status :: jsstring
  userId :: "jsstring option"
  createdAt :: "timestamp option"

record user =
  uid :: jsstring

datatype view = MyTickets | AllTickets | Stats

datatype error = FirebaseError string

text \<open>The settlement of a promise returned by the remote service.\<close>

datatype 'a promise = Fulfilled 'a | Rejected error

text \<open>
  The component state (the \<open>useState\<close> cells), together with the two things outside
  the component that the handlers act on: the remote collection and the console.
  \<open>db\<close> says whether the Firestore handle is set (component state in the Canvas variant).
\<close>

record app =
  tickets :: "ticket list"
  user :: "user option"
  title :: jsstring
  description :: jsstring
  view :: view
  showConfirmModal :: bool
  ticketToDeleteId :: "jsstring option"
  db :: bool
  collection :: "ticket list"
  console :: "(string \<times> error) list"

subsection \<open>Create\<close>

text \<open>
  \<open>addDoc\<close> resolves with the provider-assigned document id; the sentinel
  \<open>serverTimestamp()\<close> is replaced by the server's clock. Both come with the reply.
\<close>

definition addDoc :: "ticket list \<Rightarrow> jsstring \<Rightarrow> jsstring \<Rightarrow> jsstring \<Rightarrow> jsstring
    \<Rightarrow> jsstring \<times> timestamp \<Rightarrow> ticket list" where
  "addDoc coll t d st u reply =
     coll @ [\<lparr>ticketId = fst reply, ticketTitle = t, ticketDescription = d, status = st,
              userId = Some u, createdAt = Some (snd reply)\<rparr>]"

text \<open>\<open>createTicket\<close> of \<open>src/App.jsx\<close> (and, the same text, of the Netlify variant).\<close>

definition createTicket :: "(jsstring \<times> timestamp) promise \<Rightarrow> app \<Rightarrow> app" where
  "createTicket reply s =
     (if trim (title s) = [] \<or> trim (description s) = [] then s
      else case user s of
        None \<Rightarrow> s
      | Some u \<Rightarrow>
          (case reply of
             Fulfilled r \<Rightarrow>
               s\<lparr>collection := addDoc (collection s) (trim (title s)) (trim (description s))
                                 (js ''Open'') (uid u) r,
                 title := [], description := []\<rparr>
           | Rejected e \<Rightarrow> s\<lparr>console := console s @ [(''Error creating document: '', e)]\<rparr>))"

text \<open>\<open>createTicket\<close> of the Canvas variant: the guard also tests \<open>db\<close>.\<close>

definition createTicket_canvas :: "(jsstring \<times> timestamp) promise \<Rightarrow> app \<Rightarrow> app" where
  "createTicket_canvas reply s =
     (if trim (title s) = [] \<or> trim (description s) = [] then s
      else case user s of
        None \<Rightarrow> s
      | Some u \<Rightarrow>
          if \<not> db s then s
          else (case reply of
             Fulfilled r \<Rightarrow>
               s\<lparr>collection := addDoc (collection s) (trim (title s)) (trim (description s))
                                 (js ''Open'') (uid u) r,
                 title := [], description := []\<rparr>
           | Rejected e \<Rightarrow> s\<lparr>console := console s @ [(''Error creating document: '', e)]\<rparr>))"

subsection \<open>The live query and its snapshot handler\<close>

text \<open>
  The query of the listener effect: owner-filtered in the view \<open>'My Tickets'\<close>, the
  whole collection otherwise. The order in which the service lists the matching
  documents is the service's own.
\<close>

definition ticketsQuery :: "view \<Rightarrow> user \<Rightarrow> ticket list \<Rightarrow> ticket list" where
  "ticketsQuery v u coll =
     (if v = MyTickets then filter (\<lambda>d. userId d = Some (uid u)) coll else coll)"

text \<open>
  \<open>Array.prototype.sort(cmp)\<close> is a stable sort (ECMAScript 2019): for a consistent
  comparator its result is the one of any stable sort, here insertion from the right.
  \<open>cmp x y \<le> 0\<close> keeps \<open>x\<close> in front of \<open>y\<close>.
\<close>

fun insertBy :: "('a \<Rightarrow> 'a \<Rightarrow> rat) \<Rightarrow> 'a \<Rightarrow> 'a list \<Rightarrow> 'a list" where
  "insertBy cmp x [] = [x]"
| "insertBy cmp x (y # ys) = (if cmp x y \<le> 0 then x # y # ys else y # insertBy cmp x ys)"

definition array_sort :: "('a \<Rightarrow> 'a \<Rightarrow> rat) \<Rightarrow> 'a list \<Rightarrow> 'a list" where
  "array_sort cmp xs = foldr (insertBy cmp) xs []"

text \<open>\<open>a.createdAt?.toMillis() || 0\<close>: \<open>undefined\<close> and \<open>0\<close> are both falsy.\<close>

definition timeOf :: "ticket \<Rightarrow> rat" where
  "timeOf a =
     (case createdAt a of
        None \<Rightarrow> 0
      | Some ts \<Rightarrow> if toMillis ts = 0 then 0 else toMillis ts)"

definition compareTickets :: "ticket \<Rightarrow> ticket \<Rightarrow> rat" where
  "compareTickets a b = (let timeA = timeOf a; timeB = timeOf b in timeB - timeA)"

text \<open>The snapshot callback of \<open>src/App.jsx\<close> and of the Canvas variant.\<close>

definition onSnapshot_next :: "ticket list \<Rightarrow> app \<Rightarrow> app" where
  "onSnapshot_next docs s = s\<lparr>tickets := array_sort compareTickets docs\<rparr>"

text \<open>The snapshot callback of the Netlify variant: no sort, the query has \<open>orderBy\<close>.\<close>

definition onSnapshot_next_netlify :: "ticket list \<Rightarrow> app \<Rightarrow> app" where
  "onSnapshot_next_netlify docs s = s\<lparr>tickets := docs\<rparr>"

text \<open>The error callback of the listener, the same in all variants.\<close>

definition onSnapshot_error :: "error \<Rightarrow> app \<Rightarrow> app" where
  "onSnapshot_error e s = s\<lparr>console := console s @ [(''Error listening to tickets: '', e)]\<rparr>"

subsection \<open>Update and delete\<close>

definition updateDoc :: "ticket list \<Rightarrow> jsstring \<Rightarrow> jsstring \<Rightarrow> ticket list" where
  "updateDoc coll i newStatus =
     map (\<lambda>d. if ticketId d = i then d\<lparr>status := newStatus\<rparr> else d) coll"

definition deleteDoc :: "ticket list \<Rightarrow> jsstring \<Rightarrow> ticket list" where
  "deleteDoc coll i = filter (\<lambda>d. ticketId d \<noteq> i) coll"

text \<open>
  \<open>updateTicketStatus(id, data)\<close> of \<open>src/App.jsx\<close> (and Netlify); its only caller,
  \<open>handleStatusChange\<close>, passes \<open>{status: newStatus}\<close> as \<open>data\<close>.
\<close>

definition updateTicketStatus :: "jsstring \<Rightarrow> jsstring \<Rightarrow> unit promise \<Rightarrow> app \<Rightarrow> app" where
  "updateTicketStatus i newStatus reply s =
     (case reply of
        Fulfilled _ \<Rightarrow> s\<lparr>collection := updateDoc (collection s) i newStatus\<rparr>
      | Rejected e \<Rightarrow> s\<lparr>console := console s @ [(''Error updating document: '', e)]\<rparr>)"

definition updateTicketStatus_canvas ::
    "jsstring \<Rightarrow> jsstring \<Rightarrow> unit promise \<Rightarrow> app \<Rightarrow> app" where
  "updateTicketStatus_canvas i newStatus reply s =
     (if \<not> db s then s
      else case reply of
        Fulfilled _ \<Rightarrow> s\<lparr>collection := updateDoc (collection s) i newStatus\<rparr>
      | Rejected e \<Rightarrow> s\<lparr>console := console s @ [(''Error updating document: '', e)]\<rparr>)"

text \<open>
  \<open>deleteTicket(id)\<close> of \<open>src/App.jsx\<close> (and Netlify). \<open>confirmed\<close> is the answer of
  \<open>window.confirm\<close>.
\<close>

definition deleteTicket :: "jsstring \<Rightarrow> bool \<Rightarrow> unit promise \<Rightarrow> app \<Rightarrow> app" where
  "deleteTicket i confirmed reply s =
     (if confirmed then
        (case reply of
           Fulfilled _ \<Rightarrow> s\<lparr>collection := deleteDoc (collection s) i\<rparr>
         | Rejected e \<Rightarrow> s\<lparr>console := console s @ [(''Error deleting document: '', e)]\<rparr>)
      else s)"

text \<open>The Canvas variant: the trash button opens the modal, the modal's buttons decide.\<close>

definition handleDeleteConfirmation :: "jsstring \<Rightarrow> app \<Rightarrow> app" where
  "handleDeleteConfirmation ticketId' s =
     s\<lparr>ticketToDeleteId := Some ticketId', showConfirmModal := True\<rparr>"

text \<open>
  \<open>deleteTicket\<close> of the Canvas variant, the modal's \<open>onConfirm\<close>. \<open>!ticketToDeleteId\<close>
  holds for \<open>null\<close> and for the empty string. The \<open>finally\<close> block runs after both
  outcomes of \<open>deleteDoc\<close>.
\<close>

definition deleteTicket_canvas :: "unit promise \<Rightarrow> app \<Rightarrow> app" where
  "deleteTicket_canvas reply s =
     (case ticketToDeleteId s of
        None \<Rightarrow> s
      | Some i \<Rightarrow>
          if i = [] \<or> \<not> db s then s
          else
            (let s' = (case reply of
                         Fulfilled _ \<Rightarrow> s\<lparr>collection := deleteDoc (collection s) i\<rparr>
                       | Rejected e \<Rightarrow>
                           s\<lparr>console := console s @ [(''Error deleting document: '', e)]\<rparr>)
             in s'\<lparr>showConfirmModal := False, ticketToDeleteId := None\<rparr>))"

text \<open>The modal's \<open>onCancel\<close>: \<open>() => setShowConfirmModal(false)\<close>.\<close>

definition onCancel :: "app \<Rightarrow> app" where
  "onCancel s = s\<lparr>showConfirmModal := False\<rparr>"

subsection \<open>What a card and the modal render\<close>

datatype control =
    StatusDropdown jsstring "jsstring list"
  | DeleteButton jsstring
  | CancelButton
  | ConfirmButton



definition ConfirmationModal :: "bool \<Rightarrow> control list" where
  "ConfirmationModal isOpen = (if \<not> isOpen then [] else [CancelButton, ConfirmButton])"

text \<open>
  The deletion flow of the specification, read off the component state: a confirmation
  is pending exactly while the modal is rendered.
\<close>

datatype deletion_phase = Idle | PendingConfirmation "jsstring option"

definition phase :: "app \<Rightarrow> deletion_phase" where
  "phase s = (if showConfirmModal s then PendingConfirmation (ticketToDeleteId s) else Idle)"

subsection \<open>Statistics\<close>

text \<open>
  A JavaScript number, as far as the statistics can produce one. Division and
  multiplication round their exact result to a double: \<open>fl\<close> is that rounding.
  Dividing by zero gives \<open>NaN\<close> or \<open>Infinity\<close>, not an exception.
\<close>

datatype number = Finite rat | NaN | Infinity

datatype jsvalue = Num number | Str jsstring

definition js_divide :: "(rat \<Rightarrow> rat) \<Rightarrow> nat \<Rightarrow> nat \<Rightarrow> number" where
  "js_divide fl a b =
     (if b = 0 then (if a = 0 then NaN else Infinity)
      else Finite (fl (of_nat a / of_nat b)))"

definition js_times100 :: "(rat \<Rightarrow> rat) \<Rightarrow> number \<Rightarrow> number" where
  "js_times100 fl x = (case x of Finite q \<Rightarrow> Finite (fl (q * 100)) | NaN \<Rightarrow> NaN | Infinity \<Rightarrow> Infinity)"

fun decimal :: "nat \<Rightarrow> jsstring" where
  "decimal n = (if n < 10 then [of_nat (48 + n)] else decimal (n div 10) @ [of_nat (48 + n mod 10)])"

declare decimal.simps [simp del]

text \<open>
  \<open>Number.prototype.toFixed(1)\<close> (ECMA-262): the integer \<open>n\<close> for which \<open>n / 10 - x\<close>
  is closest to zero, the larger one of two, printed with one digit after the point.
  Magnitudes from \<open>10^21\<close> on print in exponent notation and are outside this model.
\<close>

definition tenths :: "rat \<Rightarrow> nat" where
  "tenths x = nat \<lfloor>x * 10 + 1 / 2\<rfloor>"

definition toFixed1 :: "number \<Rightarrow> jsstring" where
  "toFixed1 x =
     (case x of
        NaN \<Rightarrow> js ''NaN''
      | Infinity \<Rightarrow> js ''Infinity''
      | Finite q \<Rightarrow>
          (let sign = (if q < 0 then js ''-'' else []); n = tenths \<bar>q\<bar>
           in sign @ decimal (n div 10) @ js ''.'' @ decimal (n mod 10)))"

record stats =
  totalCount :: nat
  openCount :: nat
  inProgress :: nat
  resolved :: nat
  openPercent :: jsvalue
  inProgressPercent :: jsvalue
  resolvedPercent :: jsvalue

text \<open>\<open>total > 0 ? ((k / total) * 100).toFixed(1) : 0\<close>, for each of the three counts \<open>k\<close>.\<close>

definition percent :: "(rat \<Rightarrow> rat) \<Rightarrow> nat \<Rightarrow> nat \<Rightarrow> jsvalue" where
  "percent fl k total' =
     (if total' > 0 then Str (toFixed1 (js_times100 fl (js_divide fl k total')))
      else Num (Finite 0))"

definition stats :: "(rat \<Rightarrow> rat) \<Rightarrow> ticket list \<Rightarrow> stats" where
  "stats fl ts =
     (let total' = length ts;
          open' = length (filter (\<lambda>t. status t = js ''Open'') ts);
          inProgress' = length (filter (\<lambda>t. status t = js ''In Progress'') ts);
          resolved' = length (filter (\<lambda>t. status t = js ''Resolved'') ts)
      in \<lparr>totalCount = total', openCount = open', inProgress = inProgress',
          resolved = resolved',
          openPercent = percent fl open' total',
          inProgressPercent = percent fl inProgress' total',
          resolvedPercent = percent fl resolved' total'\<rparr>)"


subsection \<open>Example sessions, documents and states\<close>

definition alice :: user where
  "alice = \<lparr>uid = js ''alice''\<rparr>"


definition olderTicket :: ticket where
  "olderTicket =
     \<lparr>ticketId = js ''doc1'', ticketTitle = js ''Missing bonus'',
      ticketDescription = js ''Q3 bonus not paid'', status = js ''In Progress'',
      userId = Some (js ''alice''),
      createdAt = Some (Timestamp 1700000000000)\<rparr>"

definition bobsTicket :: ticket where
  "bobsTicket =
     \<lparr>ticketId = js ''doc2'', ticketTitle = js ''Wrong rate'',
      ticketDescription = js ''Rate is 4% not 5%'', status = js ''Resolved'',
      userId = Some (js ''bob''),
      createdAt = Some (Timestamp 1700000100500)\<rparr>"

definition pendingTicket :: ticket where
  "pendingTicket =
     \<lparr>ticketId = js ''doc0'', ticketTitle = js ''Late payout'',
      ticketDescription = js ''Payout is late'', status = js ''Open'',
      userId = Some (js ''alice''), createdAt = None\<rparr>"

definition serverReply :: "jsstring \<times> timestamp" where
  "serverReply = (js ''doc3'', Timestamp 1700000300000)"

text \<open>Alice's component, with the form of the specification's example filled in.\<close>

definition refundForm :: app where
  "refundForm =
     \<lparr>tickets = [olderTicket], user = Some alice,
      title = js ''  Refund for order #457 '', description = js ''Double-charged'',
      view = MyTickets, showConfirmModal = False, ticketToDeleteId = None, db = True,
      collection = [olderTicket, bobsTicket], console = []\<rparr>"

text \<open>The document that submitting that form gives, when the server answers \<open>serverReply\<close>.\<close>

definition refundTicket :: ticket where
  "refundTicket =
     \<lparr>ticketId = js ''doc3'', ticketTitle = js ''Refund for order #457'',
      ticketDescription = js ''Double-charged'', status = js ''Open'',
      userId = Some (js ''alice''),
      createdAt = Some (Timestamp 1700000300000)\<rparr>"

text \<open>The same component with three spaces typed as the title.\<close>

definition blankForm :: app where
  "blankForm = refundForm\<lparr>title := js ''   ''\<rparr>"

text \<open>The three tickets above as one snapshot, one of each status, the undated one first.\<close>

definition mixedSnapshot :: "ticket list" where
  "mixedSnapshot = [pendingTicket, olderTicket, bobsTicket]"

text \<open>Alice's component after she pressed the trash button of her ticket \<open>doc1\<close>.\<close>

definition pendingDelete :: app where
  "pendingDelete = handleDeleteConfirmation (js ''doc1'') refundForm"


text \<open>A ticket whose status is none of the three the application writes.\<close>

definition strayTicket :: ticket where
  "strayTicket = pendingTicket\<lparr>ticketId := js ''doc9'', status := js ''Closed''\<rparr>"

subsection \<open>Predicates used in the statements\<close>

text \<open>Non-increasing in the sort key: no ticket stands before one of a greater key.\<close>

definition newestFirst :: "ticket list \<Rightarrow> bool" where
  "newestFirst ts = sorted_wrt (\<lambda>a b. timeOf b \<le> timeOf a) ts"

definition knownStatus :: "jsstring \<Rightarrow> bool" where
  "knownStatus st = (st = js ''Open'' \<or> st = js ''In Progress'' \<or> st = js ''Resolved'')"

definition wellTrimmed :: "jsstring \<Rightarrow> bool" where
  "wellTrimmed x = (x \<noteq> [] \<and> \<not> isWhiteSpace (hd x) \<and> \<not> isWhiteSpace (last x))"


text \<open>The numeral with one digit after the point that stands for \<open>tenths x\<close> tenths.\<close>

definition shown :: "rat \<Rightarrow> jsstring" where
  "shown x = decimal (tenths x div 10) @ js ''.'' @ decimal (tenths x mod 10)"

text \<open>The number that a string of decimal digits stands for.\<close>

definition digitsValue :: "jsstring \<Rightarrow> nat" where
  "digitsValue ds = foldl (\<lambda>a c. 10 * a + (unat c - 48)) 0 ds"

section \<open>Properties\<close>

subsection \<open>Create: the guard\<close>

text \<open>
  Claim C1, as amended. For every form state in which the title or the description is
  empty after trimming, or in which there is no session, \<open>createTicket\<close> (in each
  variant) returns the state it was given: no document is added to the collection, the
  form keeps its fields, and the console receives no entry. The guard is a plain
  \<open>return\<close>; the only logging in \<open>createTicket\<close> is in the \<open>catch\<close> of \<open>addDoc\<close>.
\<close>

theorem createTicket_rejects_silently:
  assumes "trim (title s) = [] \<or> trim (description s) = [] \<or> user s = None"
  shows "createTicket reply s = s \<and> createTicket_canvas reply s = s"
  using assms by (auto simp: createTicket_def createTicket_canvas_def)

theorem createTicket_rejects_silently_witness:
  "trim (title blankForm) = []
   \<and> createTicket (Fulfilled serverReply) blankForm = blankForm
   \<and> createTicket_canvas (Fulfilled serverReply) blankForm = blankForm"
proof -
  have blank: "trim (title blankForm) = []"
    by (simp add: blankForm_def refundForm_def trim_def js_def isWhiteSpace_def)
  then have "trim (title blankForm) = [] \<or> trim (description blankForm) = []
      \<or> user blankForm = None"
    by simp
  from createTicket_rejects_silently [OF this, of "Fulfilled serverReply"] blank
  show ?thesis by simp
qed

text \<open>
  The claim as stated has the rejection logged. With three spaces as the title the
  guard rejects, whether \<open>addDoc\<close> would have succeeded or failed, and the console is
  as it was: empty.
\<close>

theorem createTicket_reject_not_logged:
  "trim (title blankForm) = []
   \<and> console blankForm = []
   \<and> collection (createTicket (Rejected (FirebaseError ''unavailable'')) blankForm)
       = collection blankForm
   \<and> console (createTicket (Rejected (FirebaseError ''unavailable'')) blankForm) = []
   \<and> console (createTicket (Fulfilled serverReply) blankForm) = []
   \<and> console (createTicket_canvas (Fulfilled serverReply) blankForm) = []"
  by (simp add: createTicket_def createTicket_canvas_def blankForm_def refundForm_def
      trim_def js_def isWhiteSpace_def)

subsection \<open>The order of the displayed list\<close>

text \<open>
  The comparator \<open>timeB - timeA\<close> makes \<open>sort\<close> the library's stable insertion sort on
  the negated key.
\<close>

lemma insertBy_compareTickets:
  "insertBy compareTickets x ys = insort_key (\<lambda>t. - timeOf t) x ys"
  by (induction ys) (simp_all add: compareTickets_def)

lemma array_sort_compareTickets:
  "array_sort compareTickets xs = sort_key (\<lambda>t. - timeOf t) xs"
  by (induction xs) (simp_all add: array_sort_def sort_key_def insertBy_compareTickets)

lemma sorted_array_sort:
  "sorted_wrt (\<lambda>a b. timeOf b \<le> timeOf a) (array_sort compareTickets xs)"
proof -
  have "sorted (map (\<lambda>t. - timeOf t) (sort_key (\<lambda>t. - timeOf t) xs))"
    by (rule sorted_sort_key)
  then show ?thesis
    by (simp add: array_sort_compareTickets sorted_map)
qed

lemma mset_array_sort: "mset (array_sort compareTickets xs) = mset xs"
  by (simp add: array_sort_compareTickets)

lemma stable_array_sort:
  "filter (\<lambda>t. timeOf t = k) (array_sort compareTickets xs) = filter (\<lambda>t. timeOf t = k) xs"
  using sort_key_stable [of "\<lambda>t. - timeOf t" "- k" xs]
  by (simp add: array_sort_compareTickets)

lemma timeOf_dated: "createdAt t = Some ts \<Longrightarrow> timeOf t = toMillis ts"
  by (simp add: timeOf_def)

lemma timeOf_undated: "createdAt t = None \<Longrightarrow> timeOf t = 0"
  by (simp add: timeOf_def)

lemma sorted_mixedSnapshot:
  "array_sort compareTickets mixedSnapshot = [bobsTicket, olderTicket, pendingTicket]"
  by (simp add: mixedSnapshot_def array_sort_def compareTickets_def timeOf_def
      pendingTicket_def olderTicket_def bobsTicket_def)

text \<open>
  Claim C2, as amended. In \<open>src/App.jsx\<close> and in the Canvas variant the list stored
  for display is, for every snapshot, the snapshot sorted by the handler itself: the
  same tickets, in non-increasing order of the key \<open>timeOf\<close> (\<open>newestFirst\<close>), tickets of equal key in
  the order of the snapshot (stable). The key of a dated ticket is the milliseconds of
  \<open>createdAt\<close>, the key of an undated one is \<open>0\<close>, so an undated ticket stands after
  every ticket dated later than the epoch. The Netlify variant stores the snapshot in
  the order received: there the order is the one of the query's \<open>orderBy\<close>.
\<close>

theorem onSnapshot_next_sorts:
  "mset (tickets (onSnapshot_next docs s)) = mset docs
   \<and> newestFirst (tickets (onSnapshot_next docs s))
   \<and> (\<forall>k. filter (\<lambda>t. timeOf t = k) (tickets (onSnapshot_next docs s))
           = filter (\<lambda>t. timeOf t = k) docs)
   \<and> (\<forall>t ts. createdAt t = Some ts \<longrightarrow> timeOf t = toMillis ts)
   \<and> (\<forall>t. createdAt t = None \<longrightarrow> timeOf t = 0)
   \<and> (\<forall>i j ts. i < length docs \<and> j < length docs
         \<and> createdAt (tickets (onSnapshot_next docs s) ! i) = None
         \<and> createdAt (tickets (onSnapshot_next docs s) ! j) = Some ts \<and> 0 < toMillis ts
         \<longrightarrow> j < i)
   \<and> tickets (onSnapshot_next_netlify docs s) = docs"
proof -
  let ?res = "tickets (onSnapshot_next docs s)"
  have res: "?res = array_sort compareTickets docs"
    by (simp add: onSnapshot_next_def)
  have len: "length ?res = length docs"
    using mset_array_sort [of docs] res by (metis size_mset)
  have srt: "sorted_wrt (\<lambda>a b. timeOf b \<le> timeOf a) ?res"
    by (simp only: res sorted_array_sort)
  have last: "j < i" if "i < length docs" "j < length docs" "createdAt (?res ! i) = None"
    "createdAt (?res ! j) = Some ts" "0 < toMillis ts" for i j ts
  proof (rule ccontr)
    assume "\<not> j < i"
    moreover have "i \<noteq> j" using that by auto
    ultimately have "i < j" by simp
    with srt that(2) len have "timeOf (?res ! j) \<le> timeOf (?res ! i)"
      by (simp add: sorted_wrt_iff_nth_less)
    with that show False by (simp add: timeOf_dated timeOf_undated)
  qed
  show ?thesis
    using srt last
    by (simp add: res mset_array_sort stable_array_sort timeOf_dated timeOf_undated
        onSnapshot_next_netlify_def newestFirst_def)
qed

theorem onSnapshot_next_sorts_witness:
  "createdAt (tickets (onSnapshot_next mixedSnapshot refundForm) ! 2) = None
   \<and> createdAt (tickets (onSnapshot_next mixedSnapshot refundForm) ! 0)
       = Some (Timestamp 1700000100500)
   \<and> 0 < toMillis (Timestamp 1700000100500)
   \<and> (0 :: nat) < 2
   \<and> tickets (onSnapshot_next mixedSnapshot refundForm)
       = [bobsTicket, olderTicket, pendingTicket]
   \<and> newestFirst (tickets (onSnapshot_next mixedSnapshot refundForm))
   \<and> tickets (onSnapshot_next_netlify mixedSnapshot refundForm) = mixedSnapshot"
proof -
  let ?res = "tickets (onSnapshot_next mixedSnapshot refundForm)"
  have ev: "?res = [bobsTicket, olderTicket, pendingTicket]"
    by (simp add: onSnapshot_next_def sorted_mixedSnapshot)
  have undated: "createdAt (?res ! 2) = None"
    by (simp add: ev pendingTicket_def)
  have dated: "createdAt (?res ! 0) = Some (Timestamp 1700000100500)"
    by (simp add: ev bobsTicket_def)
  have pos: "0 < toMillis (Timestamp 1700000100500)"
    by simp
  have len: "2 < length mixedSnapshot" "0 < length mixedSnapshot"
    by (simp_all add: mixedSnapshot_def)
  note inst = onSnapshot_next_sorts [of mixedSnapshot refundForm]
  from inst len undated dated pos have "(0 :: nat) < 2" by blast
  moreover from inst have "newestFirst ?res" by blast
  moreover from inst have "tickets (onSnapshot_next_netlify mixedSnapshot refundForm)
      = mixedSnapshot" by blast
  ultimately show ?thesis using undated dated pos ev by blast
qed

text \<open>
  The claim as stated has every stored list sorted by the consumer, undated tickets
  last. The Netlify handler stores what it is given: a snapshot that lists a ticket
  whose timestamp is still pending before a dated one is stored in that order.
\<close>

theorem onSnapshot_netlify_not_sorted:
  "createdAt pendingTicket = None
   \<and> timeOf pendingTicket < timeOf olderTicket
   \<and> tickets (onSnapshot_next_netlify [pendingTicket, olderTicket] refundForm)
       = [pendingTicket, olderTicket]
   \<and> \<not> newestFirst (tickets (onSnapshot_next_netlify [pendingTicket, olderTicket] refundForm))"
  by (simp add: onSnapshot_next_netlify_def newestFirst_def timeOf_def olderTicket_def
      pendingTicket_def)

subsection \<open>Statistics: the counts\<close>

lemma status_strings_distinct:
  "js ''Open'' \<noteq> js ''In Progress''" "js ''Open'' \<noteq> js ''Resolved''"
  "js ''In Progress'' \<noteq> js ''Resolved''"
  by (simp_all add: js_def)

lemma stats_percents:
  "openPercent (stats fl ts) = percent fl (openCount (stats fl ts)) (length ts)"
  "inProgressPercent (stats fl ts) = percent fl (inProgress (stats fl ts)) (length ts)"
  "resolvedPercent (stats fl ts) = percent fl (resolved (stats fl ts)) (length ts)"
  by (simp_all add: stats_def Let_def)

lemma stats_counts:
  "totalCount (stats fl ts) = length ts"
  "openCount (stats fl ts) = length (filter (\<lambda>t. status t = js ''Open'') ts)"
  "inProgress (stats fl ts) = length (filter (\<lambda>t. status t = js ''In Progress'') ts)"
  "resolved (stats fl ts) = length (filter (\<lambda>t. status t = js ''Resolved'') ts)"
  by (simp_all add: stats_def Let_def)

lemma three_counts:
  assumes "a \<noteq> b" "a \<noteq> c" "b \<noteq> c"
  shows "length (filter (\<lambda>t. f t = a) ts) + length (filter (\<lambda>t. f t = b) ts)
         + length (filter (\<lambda>t. f t = c) ts)
         + length (filter (\<lambda>t. f t \<noteq> a \<and> f t \<noteq> b \<and> f t \<noteq> c) ts) = length ts"
  using assms by (induction ts) auto


text \<open>
  Claim C9. Each of the three counts is the number of positions of the list whose
  status is the corresponding string; their sum is at most the total, and equals it
  exactly when every status is one of the three; a ticket of any other status, wherever
  it stands in the list, adds one to the total and nothing to the three counts.
\<close>

theorem stats_counts_partition:
  "openCount (stats fl ts) = card {i. i < length ts \<and> status (ts ! i) = js ''Open''}
   \<and> inProgress (stats fl ts) = card {i. i < length ts \<and> status (ts ! i) = js ''In Progress''}
   \<and> resolved (stats fl ts) = card {i. i < length ts \<and> status (ts ! i) = js ''Resolved''}
   \<and> totalCount (stats fl ts) = length ts
   \<and> openCount (stats fl ts) + inProgress (stats fl ts) + resolved (stats fl ts)
       \<le> totalCount (stats fl ts)
   \<and> ((openCount (stats fl ts) + inProgress (stats fl ts) + resolved (stats fl ts)
        = totalCount (stats fl ts)) = (\<forall>t \<in> set ts. knownStatus (status t)))
   \<and> (\<forall>t xs ys. \<not> knownStatus (status t) \<longrightarrow>
        totalCount (stats fl (xs @ t # ys)) = Suc (totalCount (stats fl (xs @ ys)))
        \<and> openCount (stats fl (xs @ t # ys)) = openCount (stats fl (xs @ ys))
        \<and> inProgress (stats fl (xs @ t # ys)) = inProgress (stats fl (xs @ ys))
        \<and> resolved (stats fl (xs @ t # ys)) = resolved (stats fl (xs @ ys)))"
proof -
  let ?other = "length (filter (\<lambda>t. status t \<noteq> js ''Open'' \<and> status t \<noteq> js ''In Progress''
      \<and> status t \<noteq> js ''Resolved'') ts)"
  have part: "openCount (stats fl ts) + inProgress (stats fl ts) + resolved (stats fl ts)
      + ?other = totalCount (stats fl ts)"
    using three_counts [OF status_strings_distinct, of status ts] by (simp add: stats_counts)
  have other: "(?other = 0) = (\<forall>t \<in> set ts. knownStatus (status t))"
    by (auto simp: filter_empty_conv knownStatus_def)
  have eq: "(openCount (stats fl ts) + inProgress (stats fl ts) + resolved (stats fl ts)
        = totalCount (stats fl ts)) = (\<forall>t \<in> set ts. knownStatus (status t))"
    using part other by linarith
  have le: "openCount (stats fl ts) + inProgress (stats fl ts) + resolved (stats fl ts)
       \<le> totalCount (stats fl ts)"
    using part by linarith
  show ?thesis
    using eq le by (simp add: stats_counts length_filter_conv_card knownStatus_def)
qed

theorem stats_counts_partition_witness:
  "\<not> knownStatus (status strayTicket)
   \<and> totalCount (stats (\<lambda>x. x) ([pendingTicket] @ strayTicket # [olderTicket]))
       = Suc (totalCount (stats (\<lambda>x. x) ([pendingTicket] @ [olderTicket])))
   \<and> openCount (stats (\<lambda>x. x) ([pendingTicket] @ strayTicket # [olderTicket]))
       = openCount (stats (\<lambda>x. x) ([pendingTicket] @ [olderTicket]))
   \<and> knownStatus (status pendingTicket) \<and> knownStatus (status olderTicket)
   \<and> knownStatus (status bobsTicket)
   \<and> openCount (stats (\<lambda>x. x) mixedSnapshot) + inProgress (stats (\<lambda>x. x) mixedSnapshot)
       + resolved (stats (\<lambda>x. x) mixedSnapshot) = totalCount (stats (\<lambda>x. x) mixedSnapshot)"
proof -
  have stray: "\<not> knownStatus (status strayTicket)"
    by (simp add: knownStatus_def strayTicket_def js_def)
  have known: "knownStatus (status pendingTicket)" "knownStatus (status olderTicket)"
    "knownStatus (status bobsTicket)"
    by (simp_all add: knownStatus_def pendingTicket_def olderTicket_def bobsTicket_def)
  then have all: "\<forall>t \<in> set mixedSnapshot. knownStatus (status t)"
    by (simp add: mixedSnapshot_def)
  from stats_counts_partition [of "\<lambda>x. x" mixedSnapshot] stray
  have "totalCount (stats (\<lambda>x. x) ([pendingTicket] @ strayTicket # [olderTicket]))
       = Suc (totalCount (stats (\<lambda>x. x) ([pendingTicket] @ [olderTicket])))
   \<and> openCount (stats (\<lambda>x. x) ([pendingTicket] @ strayTicket # [olderTicket]))
       = openCount (stats (\<lambda>x. x) ([pendingTicket] @ [olderTicket]))"
    by blast
  moreover from stats_counts_partition [of "\<lambda>x. x" mixedSnapshot] all
  have "openCount (stats (\<lambda>x. x) mixedSnapshot) + inProgress (stats (\<lambda>x. x) mixedSnapshot)
       + resolved (stats (\<lambda>x. x) mixedSnapshot) = totalCount (stats (\<lambda>x. x) mixedSnapshot)"
    by blast
  ultimately show ?thesis using stray known by blast
qed

subsection \<open>Statistics: the percentages\<close>

lemma percent_positive:
  "0 < N \<Longrightarrow> percent fl k N = Str (toFixed1 (Finite (fl (fl (of_nat k / of_nat N) * 100))))"
  by (simp add: percent_def js_divide_def js_times100_def)

lemma percent_zero: "percent fl k 0 = Num (Finite 0)"
  by (simp add: percent_def)


lemma last_toFixed1_Finite:
  "\<exists>m < 10. last (toFixed1 (Finite q)) = of_nat (48 + m)"
proof -
  have "decimal (tenths \<bar>q\<bar> mod 10) = [of_nat (48 + tenths \<bar>q\<bar> mod 10)]"
    by (subst decimal.simps) simp
  then have "last (toFixed1 (Finite q)) = of_nat (48 + tenths \<bar>q\<bar> mod 10)"
    by (simp add: toFixed1_def Let_def)
  moreover have "tenths \<bar>q\<bar> mod 10 < 10" by simp
  ultimately show ?thesis by blast
qed

lemma toFixed1_Finite_not_special:
  "toFixed1 (Finite q) \<noteq> toFixed1 NaN" "toFixed1 (Finite q) \<noteq> toFixed1 Infinity"
proof -
  obtain m where m: "m < 10" "last (toFixed1 (Finite q)) = (of_nat (48 + m) :: 16 word)"
    using last_toFixed1_Finite by blast
  define w :: "16 word" where "w = of_nat (48 + m)"
  have "unat w = (48 + m) mod 2 ^ LENGTH(16)"
    unfolding w_def by (rule unat_of_nat)
  then have u: "unat w = 48 + m" using m(1) by simp
  have "last (toFixed1 NaN) = (78 :: 16 word)" "last (toFixed1 Infinity) = (121 :: 16 word)"
    by (simp_all add: toFixed1_def js_def)
  moreover have "w \<noteq> 78" "w \<noteq> 121"
    using u m(1) by auto
  moreover have "last (toFixed1 (Finite q)) = w"
    by (simp only: m(2) w_def)
  ultimately show "toFixed1 (Finite q) \<noteq> toFixed1 NaN" "toFixed1 (Finite q) \<noteq> toFixed1 Infinity"
    by auto
qed

text \<open>
  Claim C3. For the empty list the aggregator returns the number \<open>0\<close> for each of the
  three percentages (and \<open>0\<close> for each count). For every list each percentage is
  that number \<open>0\<close> or the print of a finite number: the division is evaluated only
  under \<open>total > 0\<close>, so no percentage is the print of \<open>NaN\<close> or \<open>Infinity\<close>, which is
  what a JavaScript division by zero yields. The aggregator is a function of the list
  (and of the arithmetic) alone, defined on every list.
\<close>

theorem stats_empty_no_division:
  "stats fl [] = \<lparr>totalCount = 0, openCount = 0, inProgress = 0, resolved = 0,
      openPercent = Num (Finite 0), inProgressPercent = Num (Finite 0),
      resolvedPercent = Num (Finite 0)\<rparr>
   \<and> openPercent (stats fl ts) =
       (if ts = [] then Num (Finite 0)
        else Str (toFixed1 (Finite
               (fl (fl (of_nat (openCount (stats fl ts)) / of_nat (length ts)) * 100)))))
   \<and> inProgressPercent (stats fl ts) =
       (if ts = [] then Num (Finite 0)
        else Str (toFixed1 (Finite
               (fl (fl (of_nat (inProgress (stats fl ts)) / of_nat (length ts)) * 100)))))
   \<and> resolvedPercent (stats fl ts) =
       (if ts = [] then Num (Finite 0)
        else Str (toFixed1 (Finite
               (fl (fl (of_nat (resolved (stats fl ts)) / of_nat (length ts)) * 100)))))
   \<and> openPercent (stats fl ts) \<notin> {Str (toFixed1 NaN), Str (toFixed1 Infinity)}
   \<and> inProgressPercent (stats fl ts) \<notin> {Str (toFixed1 NaN), Str (toFixed1 Infinity)}
   \<and> resolvedPercent (stats fl ts) \<notin> {Str (toFixed1 NaN), Str (toFixed1 Infinity)}"
proof -
  have empty: "stats fl [] = \<lparr>totalCount = 0, openCount = 0, inProgress = 0, resolved = 0,
      openPercent = Num (Finite 0), inProgressPercent = Num (Finite 0),
      resolvedPercent = Num (Finite 0)\<rparr>"
    by (simp add: stats_def percent_def)
  have p: "percent fl k (length ts) =
      (if ts = [] then Num (Finite 0)
       else Str (toFixed1 (Finite (fl (fl (of_nat k / of_nat (length ts)) * 100)))))" for k
    by (simp add: percent_zero percent_positive)
  have q: "percent fl k (length ts) \<notin> {Str (toFixed1 NaN), Str (toFixed1 Infinity)}" for k
    by (simp add: p toFixed1_Finite_not_special)
  have o1: "openPercent (stats fl ts) =
       (if ts = [] then Num (Finite 0)
        else Str (toFixed1 (Finite
               (fl (fl (of_nat (openCount (stats fl ts)) / of_nat (length ts)) * 100)))))"
    unfolding stats_percents by (rule p)
  have i1: "inProgressPercent (stats fl ts) =
       (if ts = [] then Num (Finite 0)
        else Str (toFixed1 (Finite
               (fl (fl (of_nat (inProgress (stats fl ts)) / of_nat (length ts)) * 100)))))"
    unfolding stats_percents by (rule p)
  have r1: "resolvedPercent (stats fl ts) =
       (if ts = [] then Num (Finite 0)
        else Str (toFixed1 (Finite
               (fl (fl (of_nat (resolved (stats fl ts)) / of_nat (length ts)) * 100)))))"
    unfolding stats_percents by (rule p)
  have o2: "openPercent (stats fl ts) \<notin> {Str (toFixed1 NaN), Str (toFixed1 Infinity)}"
    unfolding stats_percents by (rule q)
  have i2: "inProgressPercent (stats fl ts) \<notin> {Str (toFixed1 NaN), Str (toFixed1 Infinity)}"
    unfolding stats_percents by (rule q)
  have r2: "resolvedPercent (stats fl ts) \<notin> {Str (toFixed1 NaN), Str (toFixed1 Infinity)}"
    unfolding stats_percents by (rule q)
  show ?thesis
    by (intro conjI; fact)
qed

subsection \<open>Statistics: rounding to one decimal\<close>










lemma unat_digit: "d < 10 \<Longrightarrow> unat (of_nat (48 + d) :: 16 word) = 48 + d"
proof -
  assume d: "d < 10"
  have "unat (of_nat (48 + d) :: 16 word) = (48 + d) mod 2 ^ LENGTH(16)"
    by (rule unat_of_nat)
  with d show ?thesis by simp
qed

lemma digitsValue_decimal: "digitsValue (decimal n) = n"
proof (induction n rule: decimal.induct)
  case (1 n)
  show ?case
  proof (cases "n < 10")
    case True
    then show ?thesis
      by (subst decimal.simps) (simp add: digitsValue_def unat_digit del: of_nat_add)
  next
    case False
    have "n mod 10 < 10" by simp
    then have u: "unat (of_nat (48 + n mod 10) :: 16 word) = 48 + n mod 10"
      by (rule unat_digit)
    have "digitsValue (decimal n) = 10 * digitsValue (decimal (n div 10)) + n mod 10"
      using False by (subst decimal.simps) (simp add: digitsValue_def u del: of_nat_add)
    with 1 False show ?thesis by simp
  qed
qed

lemma shown_reads:
  "\<exists>ip fp. shown x = ip @ js ''.'' @ fp \<and> length fp = 1
     \<and> 10 * digitsValue ip + digitsValue fp = tenths x"
proof -
  have "decimal (tenths x mod 10) = [of_nat (48 + tenths x mod 10)]"
    by (subst decimal.simps) simp
  then have "length (decimal (tenths x mod 10)) = 1" by simp
  moreover have "10 * digitsValue (decimal (tenths x div 10))
      + digitsValue (decimal (tenths x mod 10)) = tenths x"
    by (simp add: digitsValue_decimal)
  ultimately show ?thesis unfolding shown_def by blast
qed




subsection \<open>Deletion\<close>

text \<open>
  Claim C5. In the Canvas variant the trash button (\<open>handleDeleteConfirmation\<close>) only
  records the id and opens the modal: the collection is as before and a confirmation
  is pending. From there the modal's confirm button (\<open>deleteTicket\<close>) removes the
  document of that id and closes the modal; its cancel button closes the modal and
  leaves the collection as it is. The confirm button exists only while a confirmation
  is pending. Cancel leaves the recorded id in \<open>ticketToDeleteId\<close>; the next press of
  a trash button overwrites it. In \<open>src/App.jsx\<close> the two steps are the button and the
  answer to \<open>window.confirm\<close>: a negative answer changes nothing, a positive one
  removes the document.
\<close>

theorem two_step_deletion:
  "collection (handleDeleteConfirmation i s) = collection s
   \<and> phase (handleDeleteConfirmation i s) = PendingConfirmation (Some i)
   \<and> (phase s = PendingConfirmation (Some i) \<and> i \<noteq> [] \<and> db s \<longrightarrow>
        collection (deleteTicket_canvas (Fulfilled ()) s) = deleteDoc (collection s) i
        \<and> phase (deleteTicket_canvas (Fulfilled ()) s) = Idle
        \<and> ticketToDeleteId (deleteTicket_canvas (Fulfilled ()) s) = None)
   \<and> collection (onCancel s) = collection s
   \<and> phase (onCancel s) = Idle
   \<and> ticketToDeleteId (onCancel s) = ticketToDeleteId s
   \<and> handleDeleteConfirmation j (onCancel s) = handleDeleteConfirmation j s
   \<and> (ConfirmButton \<in> set (ConfirmationModal (showConfirmModal s)))
       = (\<exists>p. phase s = PendingConfirmation p)
   \<and> deleteTicket i False reply s = s
   \<and> collection (deleteTicket i True (Fulfilled ()) s) = deleteDoc (collection s) i
   \<and> (d \<in> set (deleteDoc coll i)) = (d \<in> set coll \<and> ticketId d \<noteq> i)"
  by (auto simp: handleDeleteConfirmation_def phase_def deleteTicket_canvas_def onCancel_def
      ConfirmationModal_def deleteTicket_def deleteDoc_def split: if_splits)


theorem two_step_deletion_witness:
  "phase pendingDelete = PendingConfirmation (Some (js ''doc1''))
   \<and> js ''doc1'' \<noteq> [] \<and> db pendingDelete
   \<and> collection pendingDelete = [olderTicket, bobsTicket]
   \<and> collection (deleteTicket_canvas (Fulfilled ()) pendingDelete) = [bobsTicket]
   \<and> phase (deleteTicket_canvas (Fulfilled ()) pendingDelete) = Idle
   \<and> collection (onCancel pendingDelete) = [olderTicket, bobsTicket]
   \<and> phase (onCancel pendingDelete) = Idle"
proof -
  have pending: "phase pendingDelete = PendingConfirmation (Some (js ''doc1''))"
    by (simp add: pendingDelete_def handleDeleteConfirmation_def phase_def)
  have id: "js ''doc1'' \<noteq> []" by (simp add: js_def)
  have db: "db pendingDelete"
    by (simp add: pendingDelete_def handleDeleteConfirmation_def refundForm_def)
  have coll: "collection pendingDelete = [olderTicket, bobsTicket]"
    by (simp add: pendingDelete_def handleDeleteConfirmation_def refundForm_def)
  have del: "deleteDoc [olderTicket, bobsTicket] (js ''doc1'') = [bobsTicket]"
    by (simp add: deleteDoc_def olderTicket_def bobsTicket_def js_def)
  note inst = two_step_deletion [of "js ''doc1''" pendingDelete]
  from inst pending id db
  have "collection (deleteTicket_canvas (Fulfilled ()) pendingDelete)
      = deleteDoc (collection pendingDelete) (js ''doc1'')
    \<and> phase (deleteTicket_canvas (Fulfilled ()) pendingDelete) = Idle"
    by blast
  moreover from inst
  have "collection (onCancel pendingDelete) = collection pendingDelete
    \<and> phase (onCancel pendingDelete) = Idle"
    by blast
  ultimately show ?thesis using pending id db coll del by simp
qed

subsection \<open>Who may update, who may delete\<close>




subsection \<open>Failed operations\<close>

text \<open>
  Claim C7, as amended. A rejected \<open>addDoc\<close>, \<open>updateDoc\<close> or \<open>deleteDoc\<close> and an error
  of the listener each append one entry to the console. After a failed create, a failed
  status update, a failed delete behind \<open>window.confirm\<close> and a listener error, every
  other part of the state is as before: the form keeps title and description, the list
  and the collection are untouched, nothing is retried. After a failed delete in the
  Canvas variant the list, the form and the collection are as before as well, but the
  \<open>finally\<close> block has closed the modal and cleared the recorded id, as it does after a
  successful delete.
\<close>

theorem failed_operations_logged_only:
  "(trim (title s) \<noteq> [] \<and> trim (description s) \<noteq> [] \<and> user s = Some u \<longrightarrow>
      createTicket (Rejected e) s
        = s\<lparr>console := console s @ [(''Error creating document: '', e)]\<rparr>
      \<and> (db s \<longrightarrow> createTicket_canvas (Rejected e) s
        = s\<lparr>console := console s @ [(''Error creating document: '', e)]\<rparr>))
   \<and> updateTicketStatus i st (Rejected e) s
        = s\<lparr>console := console s @ [(''Error updating document: '', e)]\<rparr>
   \<and> (db s \<longrightarrow> updateTicketStatus_canvas i st (Rejected e) s
        = s\<lparr>console := console s @ [(''Error updating document: '', e)]\<rparr>)
   \<and> deleteTicket i True (Rejected e) s
        = s\<lparr>console := console s @ [(''Error deleting document: '', e)]\<rparr>
   \<and> onSnapshot_error e s
        = s\<lparr>console := console s @ [(''Error listening to tickets: '', e)]\<rparr>
   \<and> (ticketToDeleteId s = Some i \<and> i \<noteq> [] \<and> db s \<longrightarrow>
        deleteTicket_canvas (Rejected e) s
          = s\<lparr>console := console s @ [(''Error deleting document: '', e)],
              showConfirmModal := False, ticketToDeleteId := None\<rparr>)"
  by (auto simp: createTicket_def createTicket_canvas_def updateTicketStatus_def
      updateTicketStatus_canvas_def deleteTicket_def onSnapshot_error_def
      deleteTicket_canvas_def)


theorem failed_operations_logged_only_witness:
  "trim (title refundForm) \<noteq> [] \<and> trim (description refundForm) \<noteq> []
   \<and> user refundForm = Some alice \<and> db refundForm
   \<and> createTicket (Rejected (FirebaseError ''unavailable'')) refundForm
       = refundForm\<lparr>console := [(''Error creating document: '', FirebaseError ''unavailable'')]\<rparr>
   \<and> createTicket_canvas (Rejected (FirebaseError ''unavailable'')) refundForm
       = refundForm\<lparr>console := [(''Error creating document: '', FirebaseError ''unavailable'')]\<rparr>
   \<and> ticketToDeleteId pendingDelete = Some (js ''doc1'') \<and> js ''doc1'' \<noteq> []
   \<and> db pendingDelete
   \<and> deleteTicket_canvas (Rejected (FirebaseError ''unavailable'')) pendingDelete
       = pendingDelete\<lparr>console := [(''Error deleting document: '', FirebaseError ''unavailable'')],
           showConfirmModal := False, ticketToDeleteId := None\<rparr>"
proof -
  have guard: "trim (title refundForm) \<noteq> []" "trim (description refundForm) \<noteq> []"
    "user refundForm = Some alice" "db refundForm"
    by (simp_all add: refundForm_def trim_def js_def isWhiteSpace_def)
  have pend: "ticketToDeleteId pendingDelete = Some (js ''doc1'')" "js ''doc1'' \<noteq> []"
    "db pendingDelete"
    by (simp_all add: pendingDelete_def handleDeleteConfirmation_def refundForm_def js_def)
  have c0: "console refundForm = []" "console pendingDelete = []"
    by (simp_all add: pendingDelete_def handleDeleteConfirmation_def refundForm_def)
  from failed_operations_logged_only
    [of refundForm alice "FirebaseError ''unavailable''"] guard
  have "createTicket (Rejected (FirebaseError ''unavailable'')) refundForm
       = refundForm\<lparr>console := console refundForm
           @ [(''Error creating document: '', FirebaseError ''unavailable'')]\<rparr>
    \<and> createTicket_canvas (Rejected (FirebaseError ''unavailable'')) refundForm
       = refundForm\<lparr>console := console refundForm
           @ [(''Error creating document: '', FirebaseError ''unavailable'')]\<rparr>"
    by blast
  moreover from failed_operations_logged_only
    [of pendingDelete _ "FirebaseError ''unavailable''" "js ''doc1''"] pend
  have "deleteTicket_canvas (Rejected (FirebaseError ''unavailable'')) pendingDelete
       = pendingDelete\<lparr>console := console pendingDelete
           @ [(''Error deleting document: '', FirebaseError ''unavailable'')],
           showConfirmModal := False, ticketToDeleteId := None\<rparr>"
    by blast
  ultimately show ?thesis using guard pend by (simp add: c0)
qed

text \<open>
  The claim as stated leaves the whole interface state unchanged after every failed
  operation. In the Canvas variant, with the modal open on \<open>doc1\<close>, a rejected
  \<open>deleteDoc\<close> closes the modal and clears the id; the document is still there.
\<close>

theorem failed_modal_delete_changes_state:
  "showConfirmModal pendingDelete
   \<and> ticketToDeleteId pendingDelete = Some (js ''doc1'')
   \<and> \<not> showConfirmModal (deleteTicket_canvas (Rejected (FirebaseError ''permission-denied'')) pendingDelete)
   \<and> ticketToDeleteId (deleteTicket_canvas (Rejected (FirebaseError ''permission-denied'')) pendingDelete) = None
   \<and> collection (deleteTicket_canvas (Rejected (FirebaseError ''permission-denied'')) pendingDelete)
       = collection pendingDelete"
  by (simp add: pendingDelete_def handleDeleteConfirmation_def deleteTicket_canvas_def
      refundForm_def js_def)

subsection \<open>Create: what is written\<close>

lemma last_dropWhile:
  "zs \<noteq> [] \<Longrightarrow> \<not> P (last zs) \<Longrightarrow> dropWhile P zs \<noteq> [] \<and> last (dropWhile P zs) = last zs"
  by (induction zs) auto

lemma trim_ends:
  assumes "trim s \<noteq> []"
  shows "\<not> isWhiteSpace (hd (trim s))" "\<not> isWhiteSpace (last (trim s))"
proof -
  let ?ys = "dropWhile isWhiteSpace s"
  let ?zs = "dropWhile isWhiteSpace (rev ?ys)"
  have zs: "?zs \<noteq> []" using assms by (simp add: trim_def)
  have ys: "?ys \<noteq> []"
  proof
    assume "?ys = []"
    with zs show False by simp
  qed
  have "\<not> isWhiteSpace (hd ?zs)" using zs by (rule hd_dropWhile)
  then show "\<not> isWhiteSpace (last (trim s))"
    using zs by (simp add: trim_def last_rev)
  have "\<not> isWhiteSpace (hd ?ys)" using ys by (rule hd_dropWhile)
  then have "\<not> isWhiteSpace (last (rev ?ys))" using ys by (simp add: last_rev)
  with ys have "last ?zs = last (rev ?ys)" by (simp add: last_dropWhile)
  then have "hd (trim s) = hd ?ys" using zs ys by (simp add: trim_def hd_rev last_rev)
  with \<open>\<not> isWhiteSpace (hd ?ys)\<close> show "\<not> isWhiteSpace (hd (trim s))" by simp
qed

lemma createTicket_fulfilled:
  assumes "trim (title s) \<noteq> []" "trim (description s) \<noteq> []" "user s = Some u"
  shows "createTicket (Fulfilled r) s =
     s\<lparr>collection := collection s @
          [\<lparr>ticketId = fst r, ticketTitle = trim (title s),
            ticketDescription = trim (description s), status = js ''Open'',
            userId = Some (uid u), createdAt = Some (snd r)\<rparr>],
       title := [], description := []\<rparr>"
  using assms by (simp add: createTicket_def addDoc_def)

lemma createTicket_canvas_db: "db s \<Longrightarrow> createTicket_canvas reply s = createTicket reply s"
  by (simp add: createTicket_canvas_def createTicket_def split: option.splits)

lemma createTicket_collection_cases:
  "collection (createTicket reply s) = collection s
   \<or> (\<exists>r u. reply = Fulfilled r \<and> user s = Some u \<and> trim (title s) \<noteq> []
        \<and> trim (description s) \<noteq> []
        \<and> createTicket reply s = s\<lparr>collection := collection s @
          [\<lparr>ticketId = fst r, ticketTitle = trim (title s),
            ticketDescription = trim (description s), status = js ''Open'',
            userId = Some (uid u), createdAt = Some (snd r)\<rparr>],
          title := [], description := []\<rparr>)"
  by (cases reply; cases "user s") (auto simp: createTicket_def addDoc_def)

lemma createTicket_canvas_cases:
  "createTicket_canvas reply s = s \<or> createTicket_canvas reply s = createTicket reply s"
  by (cases "db s") (auto simp: createTicket_canvas_db, auto simp: createTicket_canvas_def split: option.splits)

lemma wellTrimmed_trim: "trim x \<noteq> [] \<Longrightarrow> wellTrimmed (trim x)"
  by (simp add: wellTrimmed_def trim_ends)


lemma refundForm_trimmed:
  "trim (title refundForm) = js ''Refund for order #457''"
  "trim (description refundForm) = js ''Double-charged''"
  by (simp_all add: refundForm_def trim_def js_def isWhiteSpace_def)

text \<open>
  Claim C10. Whenever the guard passes and \<open>addDoc\<close> is fulfilled, \<open>createTicket\<close>
  appends one document whose title and description are the trimmed form values, and
  resets both form fields to the empty string. In every case, a document that is in
  the collection after \<open>createTicket\<close> and was not there before has the trimmed form
  values as title and description, each non-empty and with no white space at either
  end, and the form fields are empty then. The same holds for the Canvas variant, which
  is \<open>createTicket\<close> whenever \<open>db\<close> is set.
\<close>

theorem createTicket_stores_trimmed:
  "(trim (title s) \<noteq> [] \<and> trim (description s) \<noteq> [] \<and> user s = Some u \<longrightarrow>
      createTicket (Fulfilled r) s =
        s\<lparr>collection := collection s @
             [\<lparr>ticketId = fst r, ticketTitle = trim (title s),
               ticketDescription = trim (description s), status = js ''Open'',
               userId = Some (uid u), createdAt = Some (snd r)\<rparr>],
          title := [], description := []\<rparr>
      \<and> (db s \<longrightarrow> createTicket_canvas (Fulfilled r) s = createTicket (Fulfilled r) s))
   \<and> (\<forall>d. d \<in> set (collection (createTicket reply s)) \<and> d \<notin> set (collection s) \<longrightarrow>
          ticketTitle d = trim (title s) \<and> ticketDescription d = trim (description s)
          \<and> wellTrimmed (ticketTitle d) \<and> wellTrimmed (ticketDescription d)
          \<and> title (createTicket reply s) = [] \<and> description (createTicket reply s) = [])
   \<and> (\<forall>d. d \<in> set (collection (createTicket_canvas reply s)) \<and> d \<notin> set (collection s) \<longrightarrow>
          ticketTitle d = trim (title s) \<and> ticketDescription d = trim (description s)
          \<and> wellTrimmed (ticketTitle d) \<and> wellTrimmed (ticketDescription d)
          \<and> title (createTicket_canvas reply s) = []
          \<and> description (createTicket_canvas reply s) = [])"
proof -
  have written: "ticketTitle d = trim (title s) \<and> ticketDescription d = trim (description s)
          \<and> wellTrimmed (ticketTitle d) \<and> wellTrimmed (ticketDescription d)
          \<and> title (createTicket reply s) = [] \<and> description (createTicket reply s) = []"
    if "d \<in> set (collection (createTicket reply s))" "d \<notin> set (collection s)" for d
    using createTicket_collection_cases [of reply s] that
    by (auto simp: wellTrimmed_trim)
  have written_canvas: "ticketTitle d = trim (title s) \<and> ticketDescription d = trim (description s)
          \<and> wellTrimmed (ticketTitle d) \<and> wellTrimmed (ticketDescription d)
          \<and> title (createTicket_canvas reply s) = []
          \<and> description (createTicket_canvas reply s) = []"
    if "d \<in> set (collection (createTicket_canvas reply s))" "d \<notin> set (collection s)" for d
    using createTicket_canvas_cases [of reply s] that written [of d] by auto
  have success: "trim (title s) \<noteq> [] \<and> trim (description s) \<noteq> [] \<and> user s = Some u \<longrightarrow>
      createTicket (Fulfilled r) s =
        s\<lparr>collection := collection s @
             [\<lparr>ticketId = fst r, ticketTitle = trim (title s),
               ticketDescription = trim (description s), status = js ''Open'',
               userId = Some (uid u), createdAt = Some (snd r)\<rparr>],
          title := [], description := []\<rparr>
      \<and> (db s \<longrightarrow> createTicket_canvas (Fulfilled r) s = createTicket (Fulfilled r) s)"
    by (simp add: createTicket_fulfilled createTicket_canvas_db)
  from written have second:
    "\<forall>d. d \<in> set (collection (createTicket reply s)) \<and> d \<notin> set (collection s) \<longrightarrow>
          ticketTitle d = trim (title s) \<and> ticketDescription d = trim (description s)
          \<and> wellTrimmed (ticketTitle d) \<and> wellTrimmed (ticketDescription d)
          \<and> title (createTicket reply s) = [] \<and> description (createTicket reply s) = []"
    by blast
  from written_canvas have third:
    "\<forall>d. d \<in> set (collection (createTicket_canvas reply s)) \<and> d \<notin> set (collection s) \<longrightarrow>
          ticketTitle d = trim (title s) \<and> ticketDescription d = trim (description s)
          \<and> wellTrimmed (ticketTitle d) \<and> wellTrimmed (ticketDescription d)
          \<and> title (createTicket_canvas reply s) = []
          \<and> description (createTicket_canvas reply s) = []"
    by blast
  show ?thesis
    by (rule conjI [OF success conjI [OF second third]])
qed

theorem createTicket_stores_trimmed_witness:
  "trim (title refundForm) \<noteq> [] \<and> trim (description refundForm) \<noteq> []
   \<and> user refundForm = Some alice \<and> db refundForm
   \<and> title refundForm = js ''  Refund for order #457 ''
   \<and> createTicket (Fulfilled serverReply) refundForm
       = refundForm\<lparr>collection := [olderTicket, bobsTicket, refundTicket],
           title := [], description := []\<rparr>
   \<and> createTicket_canvas (Fulfilled serverReply) refundForm
       = createTicket (Fulfilled serverReply) refundForm
   \<and> refundTicket \<in> set (collection (createTicket (Fulfilled serverReply) refundForm))
   \<and> refundTicket \<notin> set (collection refundForm)
   \<and> ticketTitle refundTicket = js ''Refund for order #457''
   \<and> wellTrimmed (ticketTitle refundTicket) \<and> wellTrimmed (ticketDescription refundTicket)"
proof -
  have guard: "trim (title refundForm) \<noteq> []" "trim (description refundForm) \<noteq> []"
    "user refundForm = Some alice" "db refundForm"
    by (simp_all add: refundForm_trimmed js_def) (simp_all add: refundForm_def)
  have form: "title refundForm = js ''  Refund for order #457 ''"
    "collection refundForm = [olderTicket, bobsTicket]"
    by (simp_all add: refundForm_def)
  have new: "\<lparr>ticketId = fst serverReply, ticketTitle = trim (title refundForm),
      ticketDescription = trim (description refundForm), status = js ''Open'',
      userId = Some (uid alice), createdAt = Some (snd serverReply)\<rparr> = refundTicket"
    by (simp add: refundForm_trimmed refundTicket_def serverReply_def alice_def)
  have fresh: "refundTicket \<notin> set (collection refundForm)"
    by (simp add: form refundTicket_def olderTicket_def bobsTicket_def js_def)
  note inst = createTicket_stores_trimmed
    [of refundForm alice serverReply "Fulfilled serverReply"]
  from inst guard
  have raw: "createTicket (Fulfilled serverReply) refundForm
       = refundForm\<lparr>collection := collection refundForm @
           [\<lparr>ticketId = fst serverReply, ticketTitle = trim (title refundForm),
             ticketDescription = trim (description refundForm), status = js ''Open'',
             userId = Some (uid alice), createdAt = Some (snd serverReply)\<rparr>],
           title := [], description := []\<rparr>"
    and canvas: "createTicket_canvas (Fulfilled serverReply) refundForm
       = createTicket (Fulfilled serverReply) refundForm"
    by blast+
  have eq: "createTicket (Fulfilled serverReply) refundForm
       = refundForm\<lparr>collection := [olderTicket, bobsTicket, refundTicket],
           title := [], description := []\<rparr>"
    unfolding raw new form(2) by simp
  have mem: "refundTicket \<in> set (collection (createTicket (Fulfilled serverReply) refundForm))"
    by (simp add: eq)
  from inst mem fresh
  have trimmed: "wellTrimmed (ticketTitle refundTicket)"
    "wellTrimmed (ticketDescription refundTicket)"
    by blast+
  have shown: "ticketTitle refundTicket = js ''Refund for order #457''"
    by (simp add: refundTicket_def)
  show ?thesis
    using guard form(1) eq canvas mem fresh shown trimmed by blast
qed

subsection \<open>Create: the new ticket in the list\<close>

lemma hd_array_sort_greatest:
  assumes "x \<in> set docs"
  shows "timeOf x \<le> timeOf (hd (array_sort compareTickets docs))"
proof -
  let ?res = "array_sort compareTickets docs"
  have mem: "x \<in> set ?res"
    using assms mset_array_sort [of docs] by (metis set_mset_mset)
  then obtain h rest where res: "?res = h # rest" by (cases ?res) auto
  have "sorted_wrt (\<lambda>a b. timeOf b \<le> timeOf a) (h # rest)"
    using sorted_array_sort [of docs] by (simp only: res)
  then have "\<forall>y \<in> set rest. timeOf y \<le> timeOf h" by simp
  with mem show ?thesis by (auto simp: res)
qed

lemma hd_array_sort_mem:
  "docs \<noteq> [] \<Longrightarrow> hd (array_sort compareTickets docs) \<in> set docs"
proof -
  assume "docs \<noteq> []"
  then have "array_sort compareTickets docs \<noteq> []"
    using mset_array_sort [of docs] by (metis mset_zero_iff)
  then have "hd (array_sort compareTickets docs) \<in> set (array_sort compareTickets docs)"
    by simp
  then show ?thesis using mset_array_sort [of docs] by (metis set_mset_mset)
qed

text \<open>
  Claim C8. When the guard passes and \<open>addDoc\<close> is fulfilled with a document id and
  the server's timestamp, the collection gains one document with status \<open>Open\<close>,
  \<open>userId\<close> the caller's \<open>uid\<close> and \<open>createdAt\<close> that timestamp. If the timestamp is
  later than the key of each of the caller's other tickets, then for every snapshot
  that lists the result of the \<open>My Tickets\<close> query on the new collection, in whatever
  order, the list stored for display has the new ticket first.
\<close>

theorem created_ticket_first:
  assumes guard: "trim (title s) \<noteq> []" "trim (description s) \<noteq> []" "user s = Some u"
    and newest: "\<forall>t \<in> set (collection s). userId t = Some (uid u) \<longrightarrow> timeOf t < toMillis now"
    and snapshot: "mset docs =
      mset (ticketsQuery MyTickets u (collection (createTicket (Fulfilled (i, now)) s)))"
  shows "collection (createTicket (Fulfilled (i, now)) s) =
      collection s @ [\<lparr>ticketId = i, ticketTitle = trim (title s),
        ticketDescription = trim (description s), status = js ''Open'',
        userId = Some (uid u), createdAt = Some now\<rparr>]
    \<and> hd (tickets (onSnapshot_next docs (createTicket (Fulfilled (i, now)) s))) =
      \<lparr>ticketId = i, ticketTitle = trim (title s),
        ticketDescription = trim (description s), status = js ''Open'',
        userId = Some (uid u), createdAt = Some now\<rparr>"
proof -
  define d where "d = \<lparr>ticketId = i, ticketTitle = trim (title s),
        ticketDescription = trim (description s), status = js ''Open'',
        userId = Some (uid u), createdAt = Some now\<rparr>"
  have coll: "collection (createTicket (Fulfilled (i, now)) s) = collection s @ [d]"
    using createTicket_fulfilled [OF guard, of "(i, now)"] by (simp add: d_def)
  have own: "userId d = Some (uid u)" and time: "timeOf d = toMillis now"
    by (simp_all add: d_def timeOf_def)
  have "mset docs = mset (filter (\<lambda>t. userId t = Some (uid u)) (collection s) @ [d])"
    using snapshot by (simp add: coll ticketsQuery_def own)
  then have "set docs = set (filter (\<lambda>t. userId t = Some (uid u)) (collection s) @ [d])"
    by (rule mset_eq_setD)
  then have docs: "set docs = {t \<in> set (collection s). userId t = Some (uid u)} \<union> {d}"
    by auto
  then have d_in: "d \<in> set docs" and ne: "docs \<noteq> []" by auto
  let ?h = "hd (array_sort compareTickets docs)"
  have "toMillis now \<le> timeOf ?h"
    using hd_array_sort_greatest [OF d_in] by (simp add: time)
  moreover have "?h \<in> set docs" using ne by (rule hd_array_sort_mem)
  ultimately have "?h = d" using docs newest by fastforce
  then show ?thesis by (simp add: coll onSnapshot_next_def d_def)
qed


theorem created_ticket_first_witness:
  "trim (title refundForm) \<noteq> [] \<and> trim (description refundForm) \<noteq> []
   \<and> user refundForm = Some alice
   \<and> timeOf olderTicket < toMillis (snd serverReply)
   \<and> ticketsQuery MyTickets alice (collection (createTicket (Fulfilled serverReply) refundForm))
       = [olderTicket, refundTicket]
   \<and> collection (createTicket (Fulfilled serverReply) refundForm)
       = [olderTicket, bobsTicket, refundTicket]
   \<and> status refundTicket = js ''Open'' \<and> userId refundTicket = Some (uid alice)
   \<and> createdAt refundTicket = Some (snd serverReply)
   \<and> hd (tickets (onSnapshot_next [olderTicket, refundTicket]
          (createTicket (Fulfilled serverReply) refundForm))) = refundTicket"
proof -
  have guard: "trim (title refundForm) \<noteq> []" "trim (description refundForm) \<noteq> []"
    "user refundForm = Some alice"
    by (simp_all add: refundForm_trimmed js_def) (simp_all add: refundForm_def)
  have coll: "collection refundForm = [olderTicket, bobsTicket]"
    by (simp add: refundForm_def)
  have older: "timeOf olderTicket < toMillis (snd serverReply)"
    by (simp add: timeOf_def olderTicket_def serverReply_def)
  have bobs: "userId bobsTicket \<noteq> Some (uid alice)"
    by (simp add: bobsTicket_def alice_def js_def)
  have newest: "\<forall>t \<in> set (collection refundForm).
      userId t = Some (uid alice) \<longrightarrow> timeOf t < toMillis (snd serverReply)"
    using older bobs by (simp add: coll)
  have new: "\<lparr>ticketId = fst serverReply, ticketTitle = trim (title refundForm),
      ticketDescription = trim (description refundForm), status = js ''Open'',
      userId = Some (uid alice), createdAt = Some (snd serverReply)\<rparr> = refundTicket"
    by (simp add: refundForm_trimmed refundTicket_def serverReply_def alice_def)
  have created: "createTicket (Fulfilled serverReply) refundForm
      = refundForm\<lparr>collection := [olderTicket, bobsTicket, refundTicket],
           title := [], description := []\<rparr>"
    using createTicket_fulfilled [OF guard, of serverReply] by (simp add: new coll)
  have query: "ticketsQuery MyTickets alice
      (collection (createTicket (Fulfilled serverReply) refundForm)) = [olderTicket, refundTicket]"
    by (simp add: created ticketsQuery_def olderTicket_def bobsTicket_def refundTicket_def
        alice_def js_def)
  have fields: "status refundTicket = js ''Open''" "userId refundTicket = Some (uid alice)"
    "createdAt refundTicket = Some (snd serverReply)"
    by (simp_all add: refundTicket_def alice_def serverReply_def)
  have snapshot: "mset [olderTicket, refundTicket] = mset (ticketsQuery MyTickets alice
      (collection (createTicket (Fulfilled (fst serverReply, snd serverReply)) refundForm)))"
    by (simp add: query)
  from created_ticket_first [OF guard newest snapshot]
  have "hd (tickets (onSnapshot_next [olderTicket, refundTicket]
          (createTicket (Fulfilled serverReply) refundForm))) = refundTicket"
    by (simp add: new)
  then show ?thesis
    using guard older query fields by (simp add: created)
qed

end
